theory Spec2Isabelle
  imports Complex_Main
begin

section \<open>The inference script \<open>ai-engine/predict.py\<close>\<close>

text \<open>
  The script is a command-line wrapper around an external detection library. Everything
  it reads from the outside (the filesystem, the image decoder, the model and its
  predictions) is taken from an environment record; everything it does to the outside
  (library calls, files written, console lines) is recorded, in order, in a trace of
  events. An operation of the script is a function into \<open>event list \<times> (error + 'a)\<close>:
  the events it caused and either the exception it raised (\<open>Inl\<close>) or its value.
  Python floats are modelled by the rationals they denote (no NaN, no infinities), and
  Python integers by \<open>int\<close>.
\<close>

subsection \<open>Paths (\<open>pathlib\<close>, POSIX flavour)\<close>

text \<open>
  A path is its anchor (absolute or not) and its list of components. The script uses
  \<open>name\<close>, \<open>stem\<close>, \<open>suffix\<close>, the join with a file name, and \<open>glob\<close>.
\<close>

datatype path = Path (absolute: bool) (parts: "string list")

definition name :: "path \<Rightarrow> string" where
  "name p = (if parts p = [] then [] else last (parts p))"

text \<open>\<open>str.rfind('.')\<close>: the index of the last dot, or \<open>-1\<close>.\<close>

fun rfind_dot :: "string \<Rightarrow> int" where
  "rfind_dot [] = -1"
| "rfind_dot (c # cs) =
     (let i = rfind_dot cs in
      if 0 \<le> i then i + 1 else if c = CHR ''.'' then 0 else -1)"

text \<open>
  \<open>PurePath.suffix\<close> and \<open>PurePath.stem\<close>: with \<open>i = name.rfind('.')\<close>, the suffix
  is \<open>name[i:]\<close> and the stem \<open>name[:i]\<close> when \<open>0 < i < len(name) - 1\<close>; otherwise the
  suffix is empty and the stem is the whole name.
\<close>

definition suffix :: "path \<Rightarrow> string" where
  "suffix p =
     (let n = name p; i = rfind_dot n in
      if 0 < i \<and> i < int (length n) - 1 then drop (nat i) n else [])"

definition stem :: "path \<Rightarrow> string" where
  "stem p =
     (let n = name p; i = rfind_dot n in
      if 0 < i \<and> i < int (length n) - 1 then take (nat i) n else n)"

text \<open>\<open>dir / file_name\<close> for a file name that is a single component.\<close>

definition joinpath :: "path \<Rightarrow> string \<Rightarrow> path" where
  "joinpath d n = Path (absolute d) (parts d @ [n])"

text \<open>\<open>str.upper()\<close> on ASCII letters; other characters are left as they are.\<close>

definition upper_char :: "char \<Rightarrow> char" where
  "upper_char c =
     (case map_of (zip ''abcdefghijklmnopqrstuvwxyz'' ''ABCDEFGHIJKLMNOPQRSTUVWXYZ'') c of
        Some u \<Rightarrow> u
      | None \<Rightarrow> c)"

definition upper :: "string \<Rightarrow> string" where
  "upper s = map upper_char s"

definition endswith :: "string \<Rightarrow> string \<Rightarrow> bool" where
  "endswith s e = (length e \<le> length s \<and> drop (length s - length e) s = e)"

subsection \<open>The outside world\<close>

text \<open>What the filesystem holds at a path; a directory lists the names of its entries.\<close>

datatype entry = Missing | File | Dir "string list" | Other

type_synonym pyfloat = rat

datatype draw =
    Rectangle "int \<times> int" "int \<times> int" "nat \<times> nat \<times> nat" int
  | PutText "string \<times> pyfloat" "int \<times> int" "nat \<times> nat \<times> nat"

text \<open>A decoded image: its shape and what has been drawn on it.\<close>

datatype image = Image (height: nat) (width: nat) (drawn: "draw list")

text \<open>
  One row of the library's \<open>boxes\<close>: \<open>cls[i]\<close>, \<open>conf[i]\<close>, and \<open>xyxy[i]\<close>, which
  the library gives as a row of four coordinates.
\<close>

record box =
  cls :: pyfloat
  conf :: pyfloat
  xyxy :: "pyfloat \<times> pyfloat \<times> pyfloat \<times> pyfloat"

text \<open>A result object of the library; \<open>boxes = None\<close> is an object with no such attribute.\<close>

record results =
  boxes :: "box list option"

text \<open>A loaded model: \<open>model_id\<close> identifies it, \<open>names\<close> is its class dictionary.\<close>

record yolo =
  model_id :: nat
  names :: "(int \<times> string) list"

record tta_predictor =
  tta_id :: nat
  tta_model :: yolo

datatype message =
    Model_not_found path
  | Image_not_found path
  | Directory_not_found path
  | Failed_to_read_image path
  | Unpack_mismatch nat
  | Message string

text \<open>Exceptions; all of them derive from Python's \<open>Exception\<close>.\<close>

datatype error =
    FileNotFoundError message
  | ValueError message
  | KeyError int
  | IndexError
  | LibraryError string

record env =
  TTA_AVAILABLE :: bool
  cuda_is_available :: bool
  fs :: "path \<Rightarrow> entry"
  YOLO :: "path \<Rightarrow> error + yolo"
  model_to :: "yolo \<Rightarrow> string \<Rightarrow> error + unit"
  TTAPredictor :: "path \<Rightarrow> pyfloat \<Rightarrow> pyfloat \<Rightarrow> error + tta_predictor"
  imread :: "path \<Rightarrow> image option"
  model_predict :: "yolo \<Rightarrow> image \<Rightarrow> pyfloat \<Rightarrow> pyfloat \<Rightarrow> string \<Rightarrow> error + results list"
  predict_single :: "tta_predictor \<Rightarrow> image \<Rightarrow> error + results"
  mkdir :: "path \<Rightarrow> error + unit"
  imwrite :: "path \<Rightarrow> image \<Rightarrow> error + bool"
  getTextSize :: "string \<times> pyfloat \<Rightarrow> int \<times> int"

definition exists_path :: "env \<Rightarrow> path \<Rightarrow> bool" where
  "exists_path E p = (fs E p \<noteq> Missing)"

definition is_file :: "env \<Rightarrow> path \<Rightarrow> bool" where
  "is_file E p = (fs E p = File)"

definition is_dir :: "env \<Rightarrow> path \<Rightarrow> bool" where
  "is_dir E p = (case fs E p of Dir _ \<Rightarrow> True | _ \<Rightarrow> False)"

text \<open>
  \<open>d.glob("*" + e)\<close> for a literal ending \<open>e\<close>: the entries of \<open>d\<close> whose name ends
  with \<open>e\<close>, in listing order; nothing when \<open>d\<close> is not a directory.
\<close>

definition glob_star :: "env \<Rightarrow> path \<Rightarrow> string \<Rightarrow> path list" where
  "glob_star E d e =
     (case fs E d of
        Dir ns \<Rightarrow> map (joinpath d) (filter (\<lambda>n. endswith n e) ns)
      | _ \<Rightarrow> [])"

subsection \<open>Events and operations\<close>

datatype line =
    Blank
  | Rule
  | Header
  | Loading_model_from path
  | Using_device string
  | Using_TTA
  | Model_loaded
  | Classes "string list"
  | Saved path
  | No_images_found path
  | Found_images nat
  | Processing string
  | Detected_objects int
  | Error_line error
  | Error_loading_model error
  | Running_inference_on path
  | Running_batch_inference_on path
  | Results_title
  | Image_line path
  | Detections_line int
  | Detected_objects_title
  | Detected_object nat string pyfloat
  | No_objects_detected
  | Summary_title
  | Total_images_processed nat
  | Total_detections int
  | Average_detections pyfloat
  | Neither_file_nor_directory path
  | Error_during_inference error
  | Traceback
  | Completed
  | Predictions_saved_to "path option"

datatype event =
    Call_YOLO path
  | Call_to nat string
  | Call_TTAPredictor path pyfloat pyfloat
  | Call_imread path
  | Call_predict nat image pyfloat pyfloat string
  | Call_predict_single nat image
  | Call_mkdir path
  | Call_imwrite path image
  | Print line

type_synonym 'a io = "event list \<times> (error + 'a)"

definition io_return :: "'a \<Rightarrow> 'a io" where
  "io_return x = ([], Inr x)"

definition io_raise :: "error \<Rightarrow> 'a io" where
  "io_raise e = ([], Inl e)"

definition io_print :: "line \<Rightarrow> unit io" where
  "io_print l = ([Print l], Inr ())"

text \<open>An external call: the event, and what the call gave.\<close>

definition io_call :: "event \<Rightarrow> error + 'a \<Rightarrow> 'a io" where
  "io_call ev r = ([ev], r)"

text \<open>Sequencing: an exception in the first part skips the second.\<close>

definition io_bind :: "'a io \<Rightarrow> ('a \<Rightarrow> 'b io) \<Rightarrow> 'b io" where
  "io_bind m f =
     (case m of
        (t, Inl e) \<Rightarrow> (t, Inl e)
      | (t, Inr x) \<Rightarrow> (case f x of (t', r) \<Rightarrow> (t @ t', r)))"

definition io_then :: "unit io \<Rightarrow> 'b io \<Rightarrow> 'b io" where
  "io_then m k = io_bind m (\<lambda>_. k)"

fun io_prints :: "line list \<Rightarrow> unit io" where
  "io_prints ls = (map Print ls, Inr ())"

subsection \<open>\<open>ObjectDetectionPredictor\<close>\<close>

record predictor_obj =
  model_path :: path
  conf_threshold :: pyfloat
  iou_threshold :: pyfloat
  use_tta :: bool
  device :: string
  predictor :: "tta_predictor option"
  model :: yolo
  class_names :: "(int \<times> string) list"

text \<open>
  \<open>__init__\<close>, lines 79 to 114: the existence check, the downgrade of \<open>use_tta\<close>, the
  device, then the load through the TTA wrapper or through \<open>YOLO\<close> and \<open>to\<close>.
\<close>

definition load_model ::
  "env \<Rightarrow> path \<Rightarrow> pyfloat \<Rightarrow> pyfloat \<Rightarrow> string \<Rightarrow> bool \<Rightarrow> (tta_predictor option \<times> yolo) io" where
  "load_model E mp c i dev tta =
     (if tta then
        io_then (io_print Using_TTA)
          (io_bind (io_call (Call_TTAPredictor mp c i) (TTAPredictor E mp c i))
             (\<lambda>t. io_return (Some t, tta_model t)))
      else
        io_bind (io_call (Call_YOLO mp) (YOLO E mp))
          (\<lambda>m. io_then (io_call (Call_to (model_id m) dev) (model_to E m dev))
             (io_return (None, m))))"

definition init ::
  "env \<Rightarrow> path \<Rightarrow> pyfloat \<Rightarrow> pyfloat \<Rightarrow> string option \<Rightarrow> bool \<Rightarrow> predictor_obj io" where
  "init E mp c i dev_opt tta_req =
     (if \<not> exists_path E mp then io_raise (FileNotFoundError (Model_not_found mp))
      else
        let tta = (tta_req \<and> TTA_AVAILABLE E);
            dev = (case dev_opt of
                     None \<Rightarrow> (if cuda_is_available E then ''cuda'' else ''cpu'')
                   | Some d \<Rightarrow> d)
        in io_then (io_prints [Loading_model_from mp, Using_device dev])
             (io_bind (load_model E mp c i dev tta)
                (\<lambda>(pr, m).
                   io_then (io_prints [Model_loaded, Classes (map snd (names m)), Blank])
                     (io_return
                        \<lparr>model_path = mp, conf_threshold = c, iou_threshold = i,
                         use_tta = tta, device = dev, predictor = pr, model = m,
                         class_names = names m\<rparr>))))"

subsection \<open>Detections and prediction results\<close>

record detection =
  class_id :: int
  class_name :: string
  confidence :: pyfloat
  bbox :: "pyfloat list"

record prediction =
  image_path :: path
  image_size :: "nat \<times> nat"
  predictions :: "detection list"
  num_detections :: int

text \<open>\<open>int(x)\<close> on a float truncates towards zero.\<close>

definition py_int :: "pyfloat \<Rightarrow> int" where
  "py_int x = (if 0 \<le> x then floor x else ceiling x)"

text \<open>\<open>boxes.xyxy[i].cpu().numpy().tolist()\<close>: the row as a Python list.\<close>

definition tolist :: "pyfloat \<times> pyfloat \<times> pyfloat \<times> pyfloat \<Rightarrow> pyfloat list" where
  "tolist r = (case r of (x1, y1, x2, y2) \<Rightarrow> [x1, y1, x2, y2])"

text \<open>
  \<open>_extract_predictions\<close>, lines 228 to 243. The loop appends one record per box;
  \<open>self.class_names[...]\<close> raises \<open>KeyError\<close> for an identifier the dictionary lacks.
\<close>

fun extract_loop ::
  "(int \<times> string) list \<Rightarrow> detection list \<Rightarrow> box list \<Rightarrow> error + detection list" where
  "extract_loop cn acc [] = Inr acc"
| "extract_loop cn acc (b # bs) =
     (case map_of cn (py_int (cls b)) of
        None \<Rightarrow> Inl (KeyError (py_int (cls b)))
      | Some nm \<Rightarrow>
          extract_loop cn
            (acc @ [\<lparr>class_id = py_int (cls b), class_name = nm,
                     confidence = conf b, bbox = tolist (xyxy b)\<rparr>]) bs)"

definition extract_predictions :: "predictor_obj \<Rightarrow> results \<Rightarrow> error + detection list" where
  "extract_predictions self res =
     (case boxes res of
        None \<Rightarrow> Inr []
      | Some bs \<Rightarrow> extract_loop (class_names self) [] bs)"

definition colors :: "(nat \<times> nat \<times> nat) list" where
  "colors = [(255, 0, 0), (0, 255, 0), (0, 0, 255), (255, 255, 0),
             (255, 0, 255), (0, 255, 255), (128, 0, 128)]"

definition draw_on :: "image \<Rightarrow> draw \<Rightarrow> image" where
  "draw_on img d = Image (height img) (width img) (drawn img @ [d])"

text \<open>
  \<open>_draw_predictions\<close>, lines 245 to 278. Unpacking \<open>map(int, pred['bbox'])\<close> into four
  names raises \<open>ValueError\<close> unless the box has exactly four coordinates.
\<close>

fun draw_predictions :: "env \<Rightarrow> image \<Rightarrow> detection list \<Rightarrow> error + image" where
  "draw_predictions E img [] = Inr img"
| "draw_predictions E img (pred # rest) =
     (case map py_int (bbox pred) of
        [x1, y1, x2, y2] \<Rightarrow>
          (let color = colors ! nat (class_id pred mod int (length colors));
               img1 = draw_on img (Rectangle (x1, y1) (x2, y2) color 2);
               label = (class_name pred, confidence pred);
               (label_w, label_h) = getTextSize E label;
               img2 = draw_on img1
                        (Rectangle (x1, y1 - label_h - 10) (x1 + label_w, y1) color (- 1));
               img3 = draw_on img2 (PutText label (x1, y1 - 5) (255, 255, 255))
           in draw_predictions E img3 rest)
      | xs \<Rightarrow> Inl (ValueError (Unpack_mismatch (length xs))))"

definition io_lift :: "error + 'a \<Rightarrow> 'a io" where
  "io_lift r = ([], r)"

text \<open>\<open>try: ... except Exception as e\<close>: the exception becomes a value.\<close>

definition io_try :: "'a io \<Rightarrow> (error + 'a) io" where
  "io_try m = (fst m, Inr (snd m))"

text \<open>Lines 143 to 152: inference through the TTA wrapper or through the plain model.\<close>

definition run_inference :: "env \<Rightarrow> predictor_obj \<Rightarrow> image \<Rightarrow> results io" where
  "run_inference E self img =
     (if use_tta self then
        (case predictor self of
           None \<Rightarrow> io_raise (LibraryError ''AttributeError'')
         | Some t \<Rightarrow> io_call (Call_predict_single (tta_id t) img) (predict_single E t img))
      else
        io_bind
          (io_call
             (Call_predict (model_id (model self)) img (conf_threshold self)
                (iou_threshold self) (device self))
             (model_predict E (model self) img (conf_threshold self)
                (iou_threshold self) (device self)))
          (\<lambda>rs. case rs of [] \<Rightarrow> io_raise IndexError | r # _ \<Rightarrow> io_return r))"

definition output_path_for :: "path \<Rightarrow> path \<Rightarrow> path" where
  "output_path_for out ip = joinpath out (stem ip @ ''_predicted'' @ suffix ip)"

text \<open>Lines 158 to 169: the annotated copy is drawn and written.\<close>

definition save_annotated ::
  "env \<Rightarrow> path \<Rightarrow> image \<Rightarrow> detection list \<Rightarrow> path option \<Rightarrow> unit io" where
  "save_annotated E ip img preds output_dir =
     (let out = (case output_dir of None \<Rightarrow> Path False [''predictions''] | Some d \<Rightarrow> d)
      in io_then (io_call (Call_mkdir out) (mkdir E out))
           (io_bind (io_lift (draw_predictions E img preds))
              (\<lambda>annotated.
                 let output_path = output_path_for out ip
                 in io_bind
                      (io_call (Call_imwrite output_path annotated)
                         (imwrite E output_path annotated))
                      (\<lambda>_. io_print (Saved output_path)))))"

text \<open>\<open>predict_image\<close>, lines 133 to 176.\<close>

definition predict_image ::
  "env \<Rightarrow> predictor_obj \<Rightarrow> path \<Rightarrow> bool \<Rightarrow> path option \<Rightarrow> prediction io" where
  "predict_image E self ip save_output output_dir =
     (if \<not> exists_path E ip then io_raise (FileNotFoundError (Image_not_found ip))
      else
        io_bind (io_call (Call_imread ip) (Inr (imread E ip)))
          (\<lambda>r. case r of
             None \<Rightarrow> io_raise (ValueError (Failed_to_read_image ip))
           | Some img \<Rightarrow>
               io_bind (run_inference E self img)
                 (\<lambda>res.
                    io_bind (io_lift (extract_predictions self res))
                      (\<lambda>preds.
                         io_then
                           (if save_output then save_annotated E ip img preds output_dir
                            else io_return ())
                           (io_return
                              \<lparr>image_path = ip, image_size = (height img, width img),
                               predictions = preds,
                               num_detections = int (length preds)\<rparr>)))))"

text \<open>
  The loop of \<open>predict_batch\<close>, lines 215 to 226: each image is tried; a result is
  appended, an exception is printed, and the loop goes on either way.
\<close>

fun batch_loop ::
  "env \<Rightarrow> predictor_obj \<Rightarrow> bool \<Rightarrow> path option \<Rightarrow> prediction list \<Rightarrow> path list
     \<Rightarrow> prediction list io" where
  "batch_loop E self save_output output_dir all_predictions [] = io_return all_predictions"
| "batch_loop E self save_output output_dir all_predictions (img_path # rest) =
     io_then (io_print (Processing (name img_path)))
       (io_bind (io_try (predict_image E self img_path save_output output_dir))
          (\<lambda>r. case r of
             Inr pred \<Rightarrow>
               io_then (io_prints [Detected_objects (num_detections pred), Blank])
                 (batch_loop E self save_output output_dir (all_predictions @ [pred]) rest)
           | Inl e \<Rightarrow>
               io_then (io_prints [Error_line e, Blank])
                 (batch_loop E self save_output output_dir all_predictions rest)))"

definition default_extensions :: "string list" where
  "default_extensions = [''.jpg'', ''.jpeg'', ''.png'', ''.bmp'']"

text \<open>Lines 202 to 205: for each extension, the matches of it and of its upper case.\<close>

definition find_images :: "env \<Rightarrow> path \<Rightarrow> string list \<Rightarrow> path list" where
  "find_images E source_dir extensions =
     concat (map (\<lambda>ext. glob_star E source_dir ext @ glob_star E source_dir (upper ext))
               extensions)"

text \<open>\<open>predict_batch\<close>, lines 197 to 226.\<close>

definition predict_batch ::
  "env \<Rightarrow> predictor_obj \<Rightarrow> path \<Rightarrow> bool \<Rightarrow> path option \<Rightarrow> string list
     \<Rightarrow> prediction list io" where
  "predict_batch E self source_dir save_output output_dir extensions =
     (if \<not> exists_path E source_dir
      then io_raise (FileNotFoundError (Directory_not_found source_dir))
      else
        let image_files = find_images E source_dir extensions
        in if image_files = []
           then io_then (io_print (No_images_found source_dir)) (io_return [])
           else io_then (io_prints [Found_images (length image_files), Blank])
                  (batch_loop E self save_output output_dir [] image_files))"

subsection \<open>The entry point\<close>

record args =
  args_source :: path
  args_model :: path
  args_conf :: pyfloat
  args_iou :: pyfloat
  args_device :: "string option"
  args_output :: path
  args_tta :: bool
  args_no_save :: bool

text \<open>Lines 389 to 401: what is printed after a single image.\<close>

definition result_lines :: "prediction \<Rightarrow> line list" where
  "result_lines result =
     [Blank, Rule, Results_title, Rule, Image_line (image_path result),
      Detections_line (num_detections result), Blank] @
     (if predictions result \<noteq> []
      then Detected_objects_title #
           map (\<lambda>(i, pred). Detected_object i (class_name pred) (confidence pred))
             (enumerate 1 (predictions result))
      else [No_objects_detected])"

text \<open>Lines 410 to 419: the summary of a batch.\<close>

definition summary_lines :: "prediction list \<Rightarrow> line list" where
  "summary_lines rs =
     (let total_detections = sum_list (map num_detections rs)
      in [Blank, Rule, Summary_title, Rule, Total_images_processed (length rs),
          Total_detections total_detections] @
         (if rs \<noteq> []
          then [Average_detections (of_int total_detections / of_nat (length rs))]
          else []))"

text \<open>Lines 382 to 431: the body of the second \<open>try\<close>.\<close>

definition run_source :: "env \<Rightarrow> predictor_obj \<Rightarrow> args \<Rightarrow> int io" where
  "run_source E pr a =
     (let source = args_source a;
          output_dir = (if \<not> args_no_save a then Some (args_output a) else None);
          finish =
            io_then
              (io_prints
                 ([Blank, Completed] @
                  (if \<not> args_no_save a then [Predictions_saved_to output_dir] else []) @
                  [Blank]))
              (io_return 0)
      in if is_file E source then
           io_then (io_prints [Running_inference_on source, Blank])
             (io_bind (predict_image E pr source (\<not> args_no_save a) output_dir)
                (\<lambda>result. io_then (io_prints (result_lines result)) finish))
         else if is_dir E source then
           io_then (io_prints [Running_batch_inference_on source, Blank])
             (io_bind
                (predict_batch E pr source (\<not> args_no_save a) output_dir default_extensions)
                (\<lambda>rs. io_then (io_prints (summary_lines rs)) finish))
         else
           io_then (io_print (Neither_file_nor_directory source)) (io_return 1))"

text \<open>\<open>main\<close>, lines 358 to 437, after the arguments have been parsed.\<close>

definition main :: "env \<Rightarrow> args \<Rightarrow> int io" where
  "main E a =
     io_then (io_prints [Rule, Header, Rule, Blank])
       (io_bind
          (io_try
             (init E (args_model a) (args_conf a) (args_iou a) (args_device a) (args_tta a)))
          (\<lambda>r. case r of
             Inl e \<Rightarrow> io_then (io_print (Error_loading_model e)) (io_return 1)
           | Inr pr \<Rightarrow>
               io_bind (io_try (run_source E pr a))
                 (\<lambda>r'. case r' of
                    Inl e \<Rightarrow>
                      io_then (io_prints [Error_during_inference e, Traceback]) (io_return 1)
                  | Inr code \<Rightarrow> io_return code)))"

subsection \<open>Reading traces and batches\<close>

text \<open>The paths handed to \<open>cv2.imwrite\<close>, in order.\<close>

fun writes :: "event list \<Rightarrow> path list" where
  "writes [] = []"
| "writes (Call_imwrite p img # t) = p # writes t"
| "writes (ev # t) = writes t"

text \<open>The file names announced by the batch loop, in order.\<close>

fun processed :: "event list \<Rightarrow> string list" where
  "processed [] = []"
| "processed (Print (Processing n) # t) = n # processed t"
| "processed (ev # t) = processed t"


text \<open>The results of the images of a list that \<open>predict_image\<close> processes without raising.\<close>

definition succeeded ::
  "env \<Rightarrow> predictor_obj \<Rightarrow> bool \<Rightarrow> path option \<Rightarrow> path list \<Rightarrow> prediction list" where
  "succeeded E self save_output output_dir ps =
     List.map_filter
       (\<lambda>p. case snd (predict_image E self p save_output output_dir) of
               Inl e \<Rightarrow> None
             | Inr r \<Rightarrow> Some r) ps"

subsection \<open>A concrete environment\<close>

text \<open>
  A model file, a directory \<open>imgs\<close> with two readable images, one file that does not
  decode and one text file, and a directory \<open>empty\<close> without images. The TTA module is
  not importable.
\<close>

definition demo_model :: yolo where
  "demo_model =
     \<lparr>model_id = 0,
      names = [(0, ''OxygenTank''), (1, ''NitrogenTank''), (2, ''FirstAidBox'')]\<rparr>"

definition demo_fs :: "path \<Rightarrow> entry" where
  "demo_fs p =
     (if p = Path False [''best.pt''] then File
      else if p = Path False [''imgs'']
        then Dir [''a.jpg'', ''bad.jpg'', ''notes.txt'', ''B.PNG'']
      else if p = Path False [''imgs'', ''a.jpg''] then File
      else if p = Path False [''imgs'', ''bad.jpg''] then File
      else if p = Path False [''imgs'', ''notes.txt''] then File
      else if p = Path False [''imgs'', ''B.PNG''] then File
      else if p = Path False [''empty''] then Dir [''notes.txt'']
      else if p = Path False [''empty'', ''notes.txt''] then File
      else Missing)"

definition demo_imread :: "path \<Rightarrow> image option" where
  "demo_imread p =
     (if p = Path False [''imgs'', ''a.jpg''] then Some (Image 480 640 [])
      else if p = Path False [''imgs'', ''B.PNG''] then Some (Image 10 10 [])
      else None)"

definition demo_predict :: "image \<Rightarrow> results list" where
  "demo_predict img =
     [\<lparr>boxes = Some
         (if height img = 480
          then [\<lparr>cls = 1, conf = 9 / 10, xyxy = (10, 20, 110, 220)\<rparr>,
                \<lparr>cls = 0, conf = 1 / 2, xyxy = (5 / 2, 3, 40, 50)\<rparr>]
          else [])\<rparr>]"

definition demo_env :: env where
  "demo_env =
     \<lparr>TTA_AVAILABLE = False, cuda_is_available = False, fs = demo_fs,
      YOLO = (\<lambda>p. Inr demo_model), model_to = (\<lambda>m d. Inr ()),
      TTAPredictor = (\<lambda>p c i. Inl (LibraryError ''unavailable'')),
      imread = demo_imread,
      model_predict = (\<lambda>m img c i d. Inr (demo_predict img)),
      predict_single = (\<lambda>t img. Inl (LibraryError ''unavailable'')),
      mkdir = (\<lambda>p. Inr ()), imwrite = (\<lambda>p img. Inr True),
      getTextSize = (\<lambda>l. (80, 12))\<rparr>"

definition demo_args :: "path \<Rightarrow> args" where
  "demo_args src =
     \<lparr>args_source = src, args_model = Path False [''best.pt''], args_conf = 1 / 4,
      args_iou = 9 / 20, args_device = None, args_output = Path False [''out''],
      args_tta = True, args_no_save = False\<rparr>"

text \<open>The predictor that \<open>__init__\<close> builds in this environment from these arguments.\<close>

definition demo_predictor :: predictor_obj where
  "demo_predictor =
     \<lparr>model_path = Path False [''best.pt''], conf_threshold = 1 / 4,
      iou_threshold = 9 / 20, use_tta = False, device = ''cpu'', predictor = None,
      model = demo_model, class_names = names demo_model\<rparr>"

text \<open>What \<open>predict_image\<close> returns there for \<open>imgs/a.jpg\<close> and for \<open>imgs/B.PNG\<close>.\<close>

definition demo_result :: prediction where
  "demo_result =
     \<lparr>image_path = Path False [''imgs'', ''a.jpg''], image_size = (480, 640),
      predictions =
        [\<lparr>class_id = 1, class_name = ''NitrogenTank'', confidence = 9 / 10,
          bbox = [10, 20, 110, 220]\<rparr>,
         \<lparr>class_id = 0, class_name = ''OxygenTank'', confidence = 1 / 2,
          bbox = [5 / 2, 3, 40, 50]\<rparr>],
      num_detections = 2\<rparr>"

definition demo_result_B :: prediction where
  "demo_result_B =
     \<lparr>image_path = Path False [''imgs'', ''B.PNG''], image_size = (10, 10),
      predictions = [], num_detections = 0\<rparr>"

section \<open>Properties\<close>

subsection \<open>Sequencing and traces\<close>

lemma snd_io_bind:
  "snd (io_bind m f) = (case snd m of Inl e \<Rightarrow> Inl e | Inr x \<Rightarrow> snd (f x))"
  by (cases m) (auto simp: io_bind_def split: sum.splits prod.splits)

lemma fst_io_bind:
  "fst (io_bind m f) = (case snd m of Inl e \<Rightarrow> fst m | Inr x \<Rightarrow> fst m @ fst (f x))"
  by (cases m) (auto simp: io_bind_def split: sum.splits prod.splits)

lemma snd_io_then:
  "snd (io_then m k) = (case snd m of Inl e \<Rightarrow> Inl e | Inr x \<Rightarrow> snd k)"
  by (simp add: io_then_def snd_io_bind)

lemma fst_io_then:
  "fst (io_then m k) = (case snd m of Inl e \<Rightarrow> fst m | Inr x \<Rightarrow> fst m @ fst k)"
  by (simp add: io_then_def fst_io_bind)

lemmas io_simps =
  snd_io_bind fst_io_bind snd_io_then fst_io_then io_return_def io_raise_def
  io_print_def io_call_def io_lift_def io_try_def

lemmas io_defs =
  io_then_def io_bind_def io_return_def io_print_def io_call_def io_raise_def io_lift_def
  io_try_def Let_def

lemmas image_defs =
  predict_image_def run_inference_def extract_predictions_def save_annotated_def
  output_path_for_def stem_def suffix_def name_def joinpath_def py_int_def tolist_def
  colors_def draw_on_def exists_path_def


lemma processed_append: "processed (t @ u) = processed t @ processed u"
  by (induction t rule: processed.induct) simp_all


subsection \<open>The constructor\<close>

lemma snd_init:
  "snd (init E mp c i dev tta) =
     (if \<not> exists_path E mp then Inl (FileNotFoundError (Model_not_found mp))
      else case snd (load_model E mp c i
                      (case dev of None \<Rightarrow> (if cuda_is_available E then ''cuda'' else ''cpu'')
                       | Some d \<Rightarrow> d)
                      (tta \<and> TTA_AVAILABLE E)) of
             Inl e \<Rightarrow> Inl e
           | Inr (pr, m) \<Rightarrow>
               Inr \<lparr>model_path = mp, conf_threshold = c, iou_threshold = i,
                    use_tta = (tta \<and> TTA_AVAILABLE E),
                    device = (case dev of None \<Rightarrow> (if cuda_is_available E then ''cuda'' else ''cpu'')
                              | Some d \<Rightarrow> d),
                    predictor = pr, model = m, class_names = names m\<rparr>)"
  by (simp add: init_def io_simps Let_def split: sum.splits prod.splits)

lemma init_InrD:
  assumes "snd (init E mp c i dev tta) = Inr self"
  shows "class_names self = names (model self)"
    and "use_tta self = (tta \<and> TTA_AVAILABLE E)"
    and "conf_threshold self = c" and "iou_threshold self = i"
    and "exists_path E mp"
proof -
  from assms have ex: "exists_path E mp"
    by (simp add: snd_init split: if_splits)
  from assms ex obtain pr m where
    "self = \<lparr>model_path = mp, conf_threshold = c, iou_threshold = i,
             use_tta = (tta \<and> TTA_AVAILABLE E),
             device = (case dev of None \<Rightarrow> (if cuda_is_available E then ''cuda'' else ''cpu'')
                       | Some d \<Rightarrow> d),
             predictor = pr, model = m, class_names = names m\<rparr>"
    by (simp add: snd_init split: sum.splits prod.splits) blast
  then show "class_names self = names (model self)"
    and "use_tta self = (tta \<and> TTA_AVAILABLE E)"
    and "conf_threshold self = c" and "iou_threshold self = i"
    by simp_all
  show "exists_path E mp" by (rule ex)
qed



subsection \<open>One image\<close>

lemma extract_loop_inv:
  assumes "extract_loop cn acc bs = Inr ds"
    and "\<forall>d \<in> set acc. map_of cn (class_id d) = Some (class_name d) \<and> length (bbox d) = 4"
  shows "\<forall>d \<in> set ds. map_of cn (class_id d) = Some (class_name d) \<and> length (bbox d) = 4"
  using assms
proof (induction bs arbitrary: acc)
  case Nil
  then show ?case by simp
next
  case (Cons b bs)
  show ?case
  proof (cases "map_of cn (py_int (cls b))")
    case None
    with Cons.prems show ?thesis by simp
  next
    case (Some nm)
    let ?d = "\<lparr>class_id = py_int (cls b), class_name = nm,
               confidence = conf b, bbox = tolist (xyxy b)\<rparr>"
    from Cons.prems(1) Some have "extract_loop cn (acc @ [?d]) bs = Inr ds" by simp
    moreover have "length (tolist (xyxy b)) = 4"
      by (simp add: tolist_def split: prod.splits)
    with Some Cons.prems(2)
    have "\<forall>d \<in> set (acc @ [?d]).
            map_of cn (class_id d) = Some (class_name d) \<and> length (bbox d) = 4"
      by simp
    ultimately show ?thesis by (rule Cons.IH)
  qed
qed

lemma extract_predictions_inv:
  assumes "extract_predictions self res = Inr ds"
  shows "\<forall>d \<in> set ds. map_of (class_names self) (class_id d) = Some (class_name d)
           \<and> length (bbox d) = 4"
proof (cases "boxes res")
  case None
  with assms show ?thesis by (simp add: extract_predictions_def)
next
  case (Some bs)
  with assms have "extract_loop (class_names self) [] bs = Inr ds"
    by (simp add: extract_predictions_def)
  then show ?thesis by (rule extract_loop_inv) simp
qed

lemma predict_image_InrD:
  assumes "snd (predict_image E self ip s out) = Inr r"
  shows "\<exists>img res preds. imread E ip = Some img \<and> snd (run_inference E self img) = Inr res
           \<and> extract_predictions self res = Inr preds
           \<and> r = \<lparr>image_path = ip, image_size = (height img, width img),
                   predictions = preds, num_detections = int (length preds)\<rparr>"
  using assms
  by (auto simp: predict_image_def io_simps split: if_splits option.splits sum.splits)



lemma processed_run_inference: "processed (fst (run_inference E self img)) = []"
  by (simp add: run_inference_def io_simps split: option.splits sum.splits list.splits)



lemma processed_save_annotated: "processed (fst (save_annotated E ip img preds out)) = []"
  by (simp add: save_annotated_def io_simps Let_def split: option.splits sum.splits)



lemma processed_predict_image: "processed (fst (predict_image E self ip s out)) = []"
  by (simp add: predict_image_def io_simps processed_append processed_run_inference
      processed_save_annotated split: option.splits sum.splits)


subsection \<open>A directory of images\<close>

lemma is_dir_exists: "is_dir E d \<Longrightarrow> exists_path E d"
  by (auto simp: is_dir_def exists_path_def split: entry.splits)

lemma find_images_no_match:
  assumes "fs E d = Dir ns"
    and "\<forall>n \<in> set ns. \<forall>e \<in> set exts. \<not> endswith n e \<and> \<not> endswith n (upper e)"
  shows "find_images E d exts = []"
  using assms by (auto simp: find_images_def glob_star_def filter_empty_conv)

lemma batch_loop_snd:
  "snd (batch_loop E self s out acc ps) = Inr (acc @ succeeded E self s out ps)"
  by (induction ps arbitrary: acc)
     (simp_all add: io_simps succeeded_def split: sum.splits)

lemma batch_loop_logs:
  "p \<in> set ps \<Longrightarrow> snd (predict_image E self p s out) = Inl e \<Longrightarrow>
   Print (Error_line e) \<in> set (fst (batch_loop E self s out acc ps))"
  by (induction ps arbitrary: acc) (auto simp: io_simps split: sum.splits)

lemma batch_loop_processed:
  "processed (fst (batch_loop E self s out acc ps)) = map name ps"
  by (induction ps arbitrary: acc)
     (simp_all add: io_simps processed_append processed_predict_image split: sum.splits)


lemma predict_batch_snd:
  "exists_path E d \<Longrightarrow>
   snd (predict_batch E self d s out exts) = Inr (succeeded E self s out (find_images E d exts))"
  by (simp add: predict_batch_def Let_def io_simps batch_loop_snd succeeded_def)




subsection \<open>The entry point\<close>

lemma snd_run_source:
  "snd (run_source E pr a) =
     (if is_file E (args_source a) then
        (case snd (predict_image E pr (args_source a) (\<not> args_no_save a)
                     (if \<not> args_no_save a then Some (args_output a) else None)) of
           Inl e \<Rightarrow> Inl e
         | Inr r \<Rightarrow> Inr 0)
      else if is_dir E (args_source a) then Inr 0
      else Inr 1)"
  by (simp add: run_source_def Let_def io_simps predict_batch_snd is_dir_exists
      split: sum.splits)

lemma snd_main:
  "snd (main E a) =
     (case snd (init E (args_model a) (args_conf a) (args_iou a) (args_device a) (args_tta a)) of
        Inl e \<Rightarrow> Inr 1
      | Inr pr \<Rightarrow> (case snd (run_source E pr a) of Inl e \<Rightarrow> Inr 1 | Inr code \<Rightarrow> Inr code))"
  by (simp add: main_def io_simps split: sum.splits)



subsection \<open>The concrete environment, evaluated\<close>

lemmas demo_defs =
  demo_env_def demo_fs_def demo_imread_def demo_predict_def demo_model_def demo_args_def
  demo_predictor_def demo_result_def demo_result_B_def

lemma demo_kinds:
  "is_dir demo_env (Path False [''imgs''])"
  "\<not> is_file demo_env (Path False [''imgs''])"
  "is_file demo_env (Path False [''imgs'', ''a.jpg''])"
  "is_file demo_env (Path False [''imgs'', ''bad.jpg''])"
  "\<not> is_file demo_env (Path False [''nothing''])"
  "\<not> is_dir demo_env (Path False [''nothing''])"
  "\<not> exists_path demo_env (Path False [''nothing''])"
  "is_dir demo_env (Path False [''empty''])"
  "\<not> is_file demo_env (Path False [''empty''])"
  by (simp_all add: is_dir_def is_file_def exists_path_def demo_env_def demo_fs_def)

lemma demo_init:
  "init demo_env (Path False [''best.pt'']) (1 / 4) (9 / 20) None True =
     ([Print (Loading_model_from (Path False [''best.pt''])), Print (Using_device ''cpu''),
       Call_YOLO (Path False [''best.pt'']), Call_to 0 ''cpu'', Print Model_loaded,
       Print (Classes [''OxygenTank'', ''NitrogenTank'', ''FirstAidBox'']), Print Blank],
      Inr demo_predictor)"
  by (simp add: init_def load_model_def exists_path_def io_defs demo_defs)

lemma demo_init_snd:
  "snd (init demo_env (args_model (demo_args src)) (args_conf (demo_args src))
          (args_iou (demo_args src)) (args_device (demo_args src)) (args_tta (demo_args src)))
     = Inr demo_predictor"
  using demo_init by (simp add: demo_args_def)

lemma demo_bad:
  "predict_image demo_env demo_predictor (Path False [''imgs'', ''bad.jpg'']) True
     (Some (Path False [''out''])) =
   ([Call_imread (Path False [''imgs'', ''bad.jpg''])],
    Inl (ValueError (Failed_to_read_image (Path False [''imgs'', ''bad.jpg'']))))"
  by (simp add: predict_image_def exists_path_def io_defs demo_defs)

lemma demo_a:
  "snd (predict_image demo_env demo_predictor (Path False [''imgs'', ''a.jpg'']) True
     (Some (Path False [''out'']))) = Inr demo_result"
  by (simp add: image_defs io_defs demo_defs)

lemma demo_a_writes:
  "writes (fst (predict_image demo_env demo_predictor (Path False [''imgs'', ''a.jpg'']) True
     (Some (Path False [''out''])))) = [Path False [''out'', ''a_predicted.jpg'']]"
  by (simp add: image_defs io_defs demo_defs)

lemma demo_B:
  "snd (predict_image demo_env demo_predictor (Path False [''imgs'', ''B.PNG'']) True
     (Some (Path False [''out'']))) = Inr demo_result_B"
  by (simp add: image_defs io_defs demo_defs)

lemma demo_find_images:
  "find_images demo_env (Path False [''imgs'']) default_extensions =
     [Path False [''imgs'', ''a.jpg''], Path False [''imgs'', ''bad.jpg''],
      Path False [''imgs'', ''B.PNG'']]"
  by (simp add: find_images_def glob_star_def default_extensions_def endswith_def upper_def
      upper_char_def joinpath_def demo_defs)

lemma demo_succeeded:
  "succeeded demo_env demo_predictor True (Some (Path False [''out'']))
     [Path False [''imgs'', ''a.jpg''], Path False [''imgs'', ''bad.jpg''],
      Path False [''imgs'', ''B.PNG'']] = [demo_result, demo_result_B]"
  by (simp add: succeeded_def demo_a demo_bad demo_B)


subsection \<open>The claims\<close>

text \<open>
  Claim C1, as the code has it. The exit code is 1 when building the predictor raises,
  when the source is neither a file nor a directory, and when \<open>predict_image\<close> raises on
  a source that is a file; it is 0 in every other case. A source that is a directory
  always ends with exit code 0 once the model is loaded: the exceptions of its images are
  caught inside the batch loop and never reach \<open>main\<close>. \<open>main\<close> itself never raises.
\<close>

theorem main_exit_code:
  "snd (main E a) =
     Inr (case snd (init E (args_model a) (args_conf a) (args_iou a) (args_device a)
                      (args_tta a)) of
            Inl e \<Rightarrow> 1
          | Inr pr \<Rightarrow>
              if is_file E (args_source a) then
                (case snd (predict_image E pr (args_source a) (\<not> args_no_save a)
                             (if \<not> args_no_save a then Some (args_output a) else None)) of
                   Inl e \<Rightarrow> 1
                 | Inr r \<Rightarrow> 0)
              else if is_dir E (args_source a) then 0
              else 1)"
  by (simp add: snd_main snd_run_source split: sum.splits)

theorem main_exit_code_witness:
  "snd (main demo_env (demo_args (Path False [''imgs'', ''a.jpg'']))) = Inr 0 \<and>
   snd (main demo_env (demo_args (Path False [''imgs'', ''bad.jpg'']))) = Inr 1 \<and>
   snd (main demo_env (demo_args (Path False [''imgs'']))) = Inr 0 \<and>
   snd (main demo_env (demo_args (Path False [''nothing'']))) = Inr 1 \<and>
   snd (main demo_env
          ((demo_args (Path False [''imgs'']))\<lparr>args_model := Path False [''nothing'']\<rparr>))
     = Inr 1"
proof -
  have "snd (main demo_env (demo_args (Path False [''imgs'', ''a.jpg'']))) = Inr 0"
    using main_exit_code [of demo_env "demo_args (Path False [''imgs'', ''a.jpg''])"]
    by (simp add: demo_init_snd) (simp add: demo_args_def demo_kinds demo_a)
  moreover have "snd (main demo_env (demo_args (Path False [''imgs'', ''bad.jpg'']))) = Inr 1"
    using main_exit_code [of demo_env "demo_args (Path False [''imgs'', ''bad.jpg''])"]
    by (simp add: demo_init_snd) (simp add: demo_args_def demo_kinds demo_bad)
  moreover have "snd (main demo_env (demo_args (Path False [''imgs'']))) = Inr 0"
    using main_exit_code [of demo_env "demo_args (Path False [''imgs''])"]
    by (simp add: demo_init_snd) (simp add: demo_args_def demo_kinds)
  moreover have "snd (main demo_env (demo_args (Path False [''nothing'']))) = Inr 1"
    using main_exit_code [of demo_env "demo_args (Path False [''nothing''])"]
    by (simp add: demo_init_snd) (simp add: demo_args_def demo_kinds)
  moreover have "snd (main demo_env
          ((demo_args (Path False [''imgs'']))\<lparr>args_model := Path False [''nothing'']\<rparr>))
     = Inr 1"
    using main_exit_code [of demo_env
        "(demo_args (Path False [''imgs'']))\<lparr>args_model := Path False [''nothing'']\<rparr>"]
    by (simp add: demo_args_def init_def demo_kinds io_raise_def)
  ultimately show ?thesis by blast
qed

theorem main_batch_error_counterexample:
  "snd (init demo_env (Path False [''best.pt'']) (1 / 4) (9 / 20) None True)
     = Inr demo_predictor \<and>
   Path False [''imgs'', ''bad.jpg'']
     \<in> set (find_images demo_env (Path False [''imgs'']) default_extensions) \<and>
   snd (predict_image demo_env demo_predictor (Path False [''imgs'', ''bad.jpg'']) True
          (Some (Path False [''out''])))
     = Inl (ValueError (Failed_to_read_image (Path False [''imgs'', ''bad.jpg'']))) \<and>
   snd (main demo_env (demo_args (Path False [''imgs'']))) = Inr 0"
proof -
  have "snd (run_source demo_env demo_predictor (demo_args (Path False [''imgs''])))
          = Inr 0"
    by (simp add: snd_run_source) (simp add: demo_args_def demo_kinds)
  then have "snd (main demo_env (demo_args (Path False [''imgs'']))) = Inr 0"
    by (simp add: snd_main demo_init_snd)
  then show ?thesis
    by (simp add: demo_init demo_find_images demo_bad)
qed

text \<open>
  Claim C2. For a model path that does not exist, \<open>__init__\<close> raises
  \<open>FileNotFoundError\<close>, and its trace is empty: neither \<open>YOLO\<close> nor \<open>TTAPredictor\<close> has
  been called, so no model is loaded.
\<close>

theorem init_missing_model:
  "\<not> exists_path E mp \<Longrightarrow>
   init E mp c i dev tta = ([], Inl (FileNotFoundError (Model_not_found mp)))"
  by (simp add: init_def io_raise_def)

theorem init_missing_model_witness:
  "\<not> exists_path demo_env (Path False [''nothing'']) \<and>
   init demo_env (Path False [''nothing'']) (1 / 4) (9 / 20) None False =
     ([], Inl (FileNotFoundError (Model_not_found (Path False [''nothing'']))))"
  using init_missing_model [of demo_env "Path False [''nothing'']" "1 / 4" "9 / 20" None False]
  by (simp add: demo_kinds)

text \<open>
  Claim C3. For an image path that does not exist, \<open>predict_image\<close> raises
  \<open>FileNotFoundError\<close> with an empty trace: the image has not been read and no inference
  has been run.
\<close>

theorem predict_image_missing:
  "\<not> exists_path E ip \<Longrightarrow>
   predict_image E self ip save_output output_dir =
     ([], Inl (FileNotFoundError (Image_not_found ip)))"
  by (simp add: predict_image_def io_raise_def)

theorem predict_image_missing_witness:
  "\<not> exists_path demo_env (Path False [''nothing'']) \<and>
   predict_image demo_env demo_predictor (Path False [''nothing'']) True None =
     ([], Inl (FileNotFoundError (Image_not_found (Path False [''nothing'']))))"
  using predict_image_missing [of demo_env "Path False [''nothing'']" demo_predictor True None]
  by (simp add: demo_kinds)

text \<open>
  Claim C4. For an image path that exists and that \<open>cv2.imread\<close> cannot decode (it
  returns \<open>None\<close>), \<open>predict_image\<close> raises \<open>ValueError\<close>; the read is the only event, so
  inference has not been run.
\<close>

theorem predict_image_unreadable:
  "exists_path E ip \<Longrightarrow> imread E ip = None \<Longrightarrow>
   predict_image E self ip save_output output_dir =
     ([Call_imread ip], Inl (ValueError (Failed_to_read_image ip)))"
  by (simp add: predict_image_def io_raise_def io_call_def io_bind_def)

theorem predict_image_unreadable_witness:
  "exists_path demo_env (Path False [''imgs'', ''bad.jpg'']) \<and>
   imread demo_env (Path False [''imgs'', ''bad.jpg'']) = None \<and>
   predict_image demo_env demo_predictor (Path False [''imgs'', ''bad.jpg'']) True None =
     ([Call_imread (Path False [''imgs'', ''bad.jpg''])],
      Inl (ValueError (Failed_to_read_image (Path False [''imgs'', ''bad.jpg'']))))"
proof -
  have h1: "exists_path demo_env (Path False [''imgs'', ''bad.jpg''])"
    by (simp add: exists_path_def demo_env_def demo_fs_def)
  have h2: "imread demo_env (Path False [''imgs'', ''bad.jpg'']) = None"
    by (simp add: demo_env_def demo_imread_def)
  from predict_image_unreadable [OF h1 h2, of demo_predictor True None] h1 h2
  show ?thesis by simp
qed

text \<open>
  Claim C5. For an existing directory none of whose entries ends with one of the
  extensions or with its upper case, \<open>predict_batch\<close> prints that no images were found
  and returns the empty list; it does not raise.
\<close>

theorem predict_batch_no_images:
  assumes "fs E d = Dir ns"
    and "\<forall>n \<in> set ns. \<forall>e \<in> set exts. \<not> endswith n e \<and> \<not> endswith n (upper e)"
  shows "predict_batch E self d save_output output_dir exts =
           ([Print (No_images_found d)], Inr [])"
  using assms find_images_no_match [OF assms]
  by (simp add: predict_batch_def exists_path_def io_then_def io_bind_def io_print_def
      io_return_def)

theorem predict_batch_no_images_witness:
  "fs demo_env (Path False [''empty'']) = Dir [''notes.txt''] \<and>
   predict_batch demo_env demo_predictor (Path False [''empty'']) True None
     default_extensions = ([Print (No_images_found (Path False [''empty'']))], Inr [])"
proof -
  have h1: "fs demo_env (Path False [''empty'']) = Dir [''notes.txt'']"
    by (simp add: demo_env_def demo_fs_def)
  have h2: "\<forall>n \<in> set [''notes.txt'']. \<forall>e \<in> set default_extensions.
      \<not> endswith n e \<and> \<not> endswith n (upper e)"
    by (simp add: default_extensions_def endswith_def upper_def upper_char_def)
  from predict_batch_no_images [OF h1 h2, of demo_predictor True None] h1
  show ?thesis by simp
qed

text \<open>
  Claim C6. On an existing directory \<open>predict_batch\<close> does not raise. It returns the
  results of exactly the images that \<open>predict_image\<close> processes without raising, in
  processing order; the exception of every other image is printed; and every image found
  is announced and tried, in order, whatever happened to the images before it.
\<close>

theorem batch_skips_failures:
  assumes "exists_path E d"
  shows "snd (predict_batch E self d save_output output_dir exts) =
           Inr (succeeded E self save_output output_dir (find_images E d exts)) \<and>
         (\<forall>p \<in> set (find_images E d exts). \<forall>e.
            snd (predict_image E self p save_output output_dir) = Inl e \<longrightarrow>
            Print (Error_line e)
              \<in> set (fst (predict_batch E self d save_output output_dir exts))) \<and>
         processed (fst (predict_batch E self d save_output output_dir exts)) =
           map name (find_images E d exts)"
proof (intro conjI ballI allI impI)
  show "snd (predict_batch E self d save_output output_dir exts) =
          Inr (succeeded E self save_output output_dir (find_images E d exts))"
    using assms by (rule predict_batch_snd)
next
  fix p e
  assume p: "p \<in> set (find_images E d exts)"
    and e: "snd (predict_image E self p save_output output_dir) = Inl e"
  from p have ne: "find_images E d exts \<noteq> []" by auto
  from batch_loop_logs [OF p e, of "[]"] assms ne
  show "Print (Error_line e) \<in> set (fst (predict_batch E self d save_output output_dir exts))"
    by (simp add: predict_batch_def Let_def io_simps)
next
  show "processed (fst (predict_batch E self d save_output output_dir exts)) =
          map name (find_images E d exts)"
    using assms
    by (simp add: predict_batch_def Let_def io_simps processed_append batch_loop_processed)
qed

theorem batch_skips_failures_witness:
  "exists_path demo_env (Path False [''imgs'']) \<and>
   snd (predict_image demo_env demo_predictor (Path False [''imgs'', ''bad.jpg'']) True
          (Some (Path False [''out''])))
     = Inl (ValueError (Failed_to_read_image (Path False [''imgs'', ''bad.jpg'']))) \<and>
   snd (predict_batch demo_env demo_predictor (Path False [''imgs'']) True
          (Some (Path False [''out''])) default_extensions)
     = Inr [demo_result, demo_result_B] \<and>
   Print (Error_line (ValueError (Failed_to_read_image (Path False [''imgs'', ''bad.jpg'']))))
     \<in> set (fst (predict_batch demo_env demo_predictor (Path False [''imgs'']) True
                   (Some (Path False [''out''])) default_extensions)) \<and>
   processed (fst (predict_batch demo_env demo_predictor (Path False [''imgs'']) True
                     (Some (Path False [''out''])) default_extensions))
     = [''a.jpg'', ''bad.jpg'', ''B.PNG'']"
proof -
  have h: "exists_path demo_env (Path False [''imgs''])"
    by (simp add: exists_path_def demo_env_def demo_fs_def)
  from batch_skips_failures [OF h, of demo_predictor True "Some (Path False [''out''])"
      default_extensions] h
  show ?thesis
    by (simp add: demo_find_images demo_succeeded demo_bad name_def)
qed





text \<open>
  Claim C9. For a predictor built by \<open>__init__\<close>, every result that \<open>predict_image\<close>
  returns has \<open>num_detections\<close> equal to the length of \<open>predictions\<close>, and every
  detection in it has a class name that is the entry of its class identifier in the
  model's \<open>names\<close> dictionary and a box of exactly four coordinates. The identifier is an
  \<open>int\<close>, the name a string and the confidence a float by the types of the record.
\<close>

theorem prediction_invariant:
  assumes "snd (init E mp c i dev tta) = Inr self"
    and "snd (predict_image E self ip save_output output_dir) = Inr r"
  shows "num_detections r = int (length (predictions r)) \<and>
         (\<forall>d \<in> set (predictions r).
            map_of (names (model self)) (class_id d) = Some (class_name d) \<and>
            length (bbox d) = 4)"
proof -
  from predict_image_InrD [OF assms(2)] obtain img res preds where
    ex: "extract_predictions self res = Inr preds" and
    r: "r = \<lparr>image_path = ip, image_size = (height img, width img),
             predictions = preds, num_detections = int (length preds)\<rparr>"
    by blast
  from extract_predictions_inv [OF ex] init_InrD(1) [OF assms(1)] r
  show ?thesis by simp
qed

theorem prediction_invariant_witness:
  "snd (init demo_env (Path False [''best.pt'']) (1 / 4) (9 / 20) None True)
     = Inr demo_predictor \<and>
   snd (predict_image demo_env demo_predictor (Path False [''imgs'', ''a.jpg'']) True
          (Some (Path False [''out'']))) = Inr demo_result \<and>
   num_detections demo_result = int (length (predictions demo_result)) \<and>
   list_all
     (\<lambda>d. map_of (names (model demo_predictor)) (class_id d) = Some (class_name d) \<and>
          length (bbox d) = 4)
     (predictions demo_result)"
proof -
  have h1: "snd (init demo_env (Path False [''best.pt'']) (1 / 4) (9 / 20) None True)
              = Inr demo_predictor"
    by (simp add: demo_init)
  from prediction_invariant [OF h1 demo_a] h1 demo_a show ?thesis
    by (simp add: list_all_iff)
qed

text \<open>
  Claim C10. When the TTA module is not importable, \<open>__init__\<close> with \<open>use_tta=True\<close> does
  exactly what it does with \<open>use_tta=False\<close>: the same events and the same outcome, so no
  error comes from the ignored request. A predictor it returns has \<open>use_tta = False\<close> and no
  TTA wrapper, and runs inference through \<open>model.predict\<close>; \<open>TTAPredictor\<close> is never
  called, and \<open>YOLO\<close> is called when the model file exists.
\<close>

theorem tta_unavailable_downgrade:
  assumes "\<not> TTA_AVAILABLE E"
  shows "init E mp c i dev True = init E mp c i dev False \<and>
         (\<forall>self. snd (init E mp c i dev True) = Inr self \<longrightarrow>
            \<not> use_tta self \<and> predictor self = None \<and>
            (\<forall>img. \<exists>x. fst (run_inference E self img) =
                      [Call_predict (model_id (model self)) img c i x])) \<and>
         (\<forall>p x y. Call_TTAPredictor p x y \<notin> set (fst (init E mp c i dev True))) \<and>
         (exists_path E mp \<longrightarrow> Call_YOLO mp \<in> set (fst (init E mp c i dev True)))"
proof (intro conjI allI impI)
  show "init E mp c i dev True = init E mp c i dev False"
    using assms by (simp add: init_def)
next
  fix self
  assume s: "snd (init E mp c i dev True) = Inr self"
  from init_InrD(2) [OF s] assms show u: "\<not> use_tta self" by simp
  from s assms show "predictor self = None"
    by (auto simp: snd_init load_model_def io_simps split: if_splits sum.splits)
  fix img
  from u init_InrD(3,4) [OF s]
  show "\<exists>x. fst (run_inference E self img) = [Call_predict (model_id (model self)) img c i x]"
    by (simp add: run_inference_def io_simps split: sum.splits list.splits)
next
  fix p x y
  from assms show "Call_TTAPredictor p x y \<notin> set (fst (init E mp c i dev True))"
    by (simp add: init_def load_model_def io_simps Let_def split: sum.splits)
next
  assume "exists_path E mp"
  with assms show "Call_YOLO mp \<in> set (fst (init E mp c i dev True))"
    by (simp add: init_def load_model_def io_simps Let_def split: sum.splits)
qed

theorem tta_unavailable_downgrade_witness:
  "\<not> TTA_AVAILABLE demo_env \<and>
   init demo_env (Path False [''best.pt'']) (1 / 4) (9 / 20) None True =
     init demo_env (Path False [''best.pt'']) (1 / 4) (9 / 20) None False \<and>
   snd (init demo_env (Path False [''best.pt'']) (1 / 4) (9 / 20) None True)
     = Inr demo_predictor \<and>
   \<not> use_tta demo_predictor \<and> predictor demo_predictor = None \<and>
   Call_YOLO (Path False [''best.pt''])
     \<in> set (fst (init demo_env (Path False [''best.pt'']) (1 / 4) (9 / 20) None True))"
proof -
  have h: "\<not> TTA_AVAILABLE demo_env" by (simp add: demo_env_def)
  have e: "exists_path demo_env (Path False [''best.pt''])"
    by (simp add: exists_path_def demo_env_def demo_fs_def)
  have s: "snd (init demo_env (Path False [''best.pt'']) (1 / 4) (9 / 20) None True)
             = Inr demo_predictor"
    by (simp add: demo_init)
  note t = tta_unavailable_downgrade [OF h, of "Path False [''best.pt'']" "1 / 4" "9 / 20" None]
  from t have 1: "init demo_env (Path False [''best.pt'']) (1 / 4) (9 / 20) None True =
                  init demo_env (Path False [''best.pt'']) (1 / 4) (9 / 20) None False"
    by blast
  from t s have 2: "\<not> use_tta demo_predictor \<and> predictor demo_predictor = None"
    by blast
  from t e have 3: "Call_YOLO (Path False [''best.pt''])
     \<in> set (fst (init demo_env (Path False [''best.pt'']) (1 / 4) (9 / 20) None True))"
    by blast
  from h 1 2 3 s show ?thesis by blast
qed

end
